theory Spec2Isabelle
  imports Main "HOL-Library.Multiset" "HOL-Library.Product_Lexorder"
begin

section \<open>The enumerator: \<open>solve\<close> (generate.py, lines 24-43)\<close>

text \<open>
  A solution is the dict \<^verbatim>\<open>{"stars": .., "nb_cards": .., "xyz": .., "fusion": ..}\<close> of
  Python ints, hence a record of four unbounded integers.
\<close>

record solution =
  stars :: int
  nb_cards :: int
  xyz :: int
  fusion :: int

text \<open>
  The body of the inner loop: the dict appended for one pair
  (\<^verbatim>\<open>stars = fusion + xyz\<close>, \<^verbatim>\<open>nb_cards = fusion + 2 * xyz\<close>).
\<close>

definition mk_solution :: "int \<Rightarrow> int \<Rightarrow> solution" where
  "mk_solution fusion_v xyz_v =
     \<lparr>stars = fusion_v + xyz_v, nb_cards = fusion_v + 2 * xyz_v,
      xyz = xyz_v, fusion = fusion_v\<rparr>"

text \<open>
  The two nested \<^verbatim>\<open>for\<close> loops over \<^verbatim>\<open>range(lo, hi + 1)\<close>, appending to
  \<^verbatim>\<open>solutions\<close>. \<^verbatim>\<open>range(lo, hi + 1)\<close> is the integer interval \<open>[lo..hi]\<close>, empty when
  \<open>hi < lo\<close>; the accumulator is the list being appended to.
\<close>

definition enumerate_solutions :: "int \<Rightarrow> int \<Rightarrow> int \<Rightarrow> int \<Rightarrow> solution list" where
  "enumerate_solutions fusion_min fusion_max xyz_min xyz_max =
     fold (\<lambda>fusion_v solutions.
             fold (\<lambda>xyz_v solutions. solutions @ [mk_solution fusion_v xyz_v])
                  [xyz_min..xyz_max] solutions)
          [fusion_min..fusion_max] []"

text \<open>The sort key \<^verbatim>\<open>lambda s: (s["stars"], s["xyz"])\<close>; tuples compare lexicographically.\<close>

definition sort_key_of :: "solution \<Rightarrow> int \<times> int" where
  "sort_key_of s = (stars s, xyz s)"

text \<open>
  \<^verbatim>\<open>list.sort(key=k, reverse=True)\<close>: a stable sort in descending key order. CPython
  reverses the list, sorts it stably in ascending order and reverses the result, so that
  elements with equal keys keep their original relative order.
\<close>

definition sort_reverse :: "('a \<Rightarrow> 'k::linorder) \<Rightarrow> 'a list \<Rightarrow> 'a list" where
  "sort_reverse k xs = rev (sort_key k (rev xs))"

definition solve :: "int \<Rightarrow> int \<Rightarrow> int \<Rightarrow> int \<Rightarrow> solution list" where
  "solve fusion_min fusion_max xyz_min xyz_max =
     sort_reverse sort_key_of (enumerate_solutions fusion_min fusion_max xyz_min xyz_max)"

section \<open>The renderer: \<open>generate_excel\<close> (generate.py, lines 46-102)\<close>

subsection \<open>The worksheet of the spreadsheet library\<close>

text \<open>
  The program talks to the spreadsheet library through three calls: \<^verbatim>\<open>ws.cell\<close>,
  attribute assignment on the returned cell, and \<^verbatim>\<open>ws.merge_cells\<close>. The worksheet is the
  state those calls act on: a title, the cells by (row, column), and the merged ranges in
  the order they were requested. A cell value is Python's \<^verbatim>\<open>None\<close> (\<open>Blank\<close>), an int or a
  string; the style holds the three attributes the header loop assigns.
\<close>

datatype cell_value = Blank | Num int | Str string

record cell_style =
  font_bold :: bool
  align_center :: bool
  border_left_thin :: bool

record cell =
  cvalue :: cell_value
  cstyle :: cell_style

record worksheet =
  title :: string
  cells :: "nat \<times> nat \<rightharpoonup> cell"
  merged_cells :: "(nat \<times> nat \<times> nat \<times> nat) list"

definition default_style :: cell_style where
  "default_style = \<lparr>font_bold = False, align_center = False, border_left_thin = False\<rparr>"

definition empty_cell :: cell where
  "empty_cell = \<lparr>cvalue = Blank, cstyle = default_style\<rparr>"

text \<open>\<^verbatim>\<open>Workbook()\<close> followed by \<^verbatim>\<open>wb.active\<close>: one empty sheet, titled \<^verbatim>\<open>Sheet\<close>.\<close>

definition new_workbook :: worksheet where
  "new_workbook = \<lparr>title = ''Sheet'', cells = Map.empty, merged_cells = []\<rparr>"

text \<open>
  \<^verbatim>\<open>ws.cell(row=r, column=c, value=v)\<close> fetches the cell, creating an empty one when the
  sheet has none there, and assigns the value unless \<^verbatim>\<open>v\<close> is \<^verbatim>\<open>None\<close>.
\<close>

definition ws_cell :: "worksheet \<Rightarrow> nat \<Rightarrow> nat \<Rightarrow> cell_value option \<Rightarrow> worksheet" where
  "ws_cell ws row column v =
     (let c = (case cells ws (row, column) of None \<Rightarrow> empty_cell | Some c0 \<Rightarrow> c0);
          c' = (case v of None \<Rightarrow> c | Some x \<Rightarrow> c\<lparr>cvalue := x\<rparr>)
      in ws\<lparr>cells := (cells ws)((row, column) \<mapsto> c')\<rparr>)"

text \<open>Assignment of a style attribute of the cell at (row, column).\<close>

definition set_style ::
  "worksheet \<Rightarrow> nat \<Rightarrow> nat \<Rightarrow> (cell_style \<Rightarrow> cell_style) \<Rightarrow> worksheet" where
  "set_style ws row column f =
     (case cells ws (row, column) of
        None \<Rightarrow> ws
      | Some c \<Rightarrow> ws\<lparr>cells := (cells ws)((row, column) \<mapsto> c\<lparr>cstyle := f (cstyle c)\<rparr>)\<rparr>)"

text \<open>
  \<^verbatim>\<open>ws.merge_cells(start_row, start_column, end_row, end_column)\<close> records the range and
  replaces every cell of the range except the top-left one by an empty merged cell.
\<close>

definition in_range :: "nat \<times> nat \<times> nat \<times> nat \<Rightarrow> nat \<times> nat \<Rightarrow> bool" where
  "in_range rng p =
     (case rng of (start_row, start_column, end_row, end_column) \<Rightarrow>
        start_row \<le> fst p \<and> fst p \<le> end_row \<and> start_column \<le> snd p \<and> snd p \<le> end_column)"

definition merge_cells :: "worksheet \<Rightarrow> nat \<Rightarrow> nat \<Rightarrow> nat \<Rightarrow> nat \<Rightarrow> worksheet" where
  "merge_cells ws start_row start_column end_row end_column =
     ws\<lparr>merged_cells := merged_cells ws @ [(start_row, start_column, end_row, end_column)],
        cells := (\<lambda>p. if in_range (start_row, start_column, end_row, end_column) p
                           \<and> p \<noteq> (start_row, start_column)
                        then Some empty_cell else cells ws p)\<rparr>"

subsection \<open>Header row (lines 52-62)\<close>

definition write_header :: "nat \<times> string \<Rightarrow> worksheet \<Rightarrow> worksheet" where
  "write_header ch ws =
     (case ch of (col_idx, header) \<Rightarrow>
        (let ws1 = ws_cell ws 1 col_idx (Some (Str header));
             ws2 = set_style ws1 1 col_idx (\<lambda>s. s\<lparr>font_bold := True\<rparr>);
             ws3 = set_style ws2 1 col_idx (\<lambda>s. s\<lparr>align_center := True\<rparr>)
         in set_style ws3 1 col_idx (\<lambda>s. s\<lparr>border_left_thin := True\<rparr>)))"

definition header_row :: "worksheet \<Rightarrow> worksheet" where
  "header_row ws =
     fold write_header (zip [1..<5] [''stars'', ''nb cards'', ''xyz'', ''fusion'']) ws"

subsection \<open>Data rows (lines 64-97)\<close>

text \<open>
  Python exceptions the program can raise. \<open>TypeError\<close> is what comparing an int with
  \<^verbatim>\<open>None\<close> raises; the others come from the file system and from \<^verbatim>\<open>parser.error\<close>.
\<close>

datatype py_error =
  TypeError | FileNotFoundError | FileExistsError | IsADirectoryError | SystemExit nat

text \<open>
  The variables of the loop. Row numbers start at 2 and only grow, so they are naturals,
  and \<^verbatim>\<open>row_idx - 1\<close> never truncates.
\<close>

record loop_state =
  current_stars :: "int option"
  group_start_row :: "nat option"
  sheet :: worksheet

text \<open>
  The guarded merge that closes the previous group:
  \<^verbatim>\<open>if current_stars is not None and row_idx - 1 > group_start_row\<close>. The comparison is
  evaluated only when \<^verbatim>\<open>current_stars\<close> is set, and raises when \<^verbatim>\<open>group_start_row\<close> is
  \<^verbatim>\<open>None\<close> then.
\<close>

definition close_previous :: "nat \<Rightarrow> loop_state \<Rightarrow> py_error + worksheet" where
  "close_previous row_idx st =
     (case current_stars st of
        None \<Rightarrow> Inr (sheet st)
      | Some _ \<Rightarrow>
          (case group_start_row st of
             None \<Rightarrow> Inl TypeError
           | Some g \<Rightarrow>
               Inr (if row_idx - 1 > g then merge_cells (sheet st) g 1 (row_idx - 1) 1
                    else sheet st)))"

text \<open>Columns 2 to 4 of a row (lines 87-89).\<close>

definition write_rest :: "nat \<Rightarrow> solution \<Rightarrow> worksheet \<Rightarrow> worksheet" where
  "write_rest row_idx sol ws =
     (let ws2 = ws_cell ws row_idx 2 (Some (Num (nb_cards sol)));
          ws3 = ws_cell ws2 row_idx 3 (Some (Num (xyz sol)))
      in ws_cell ws3 row_idx 4 (Some (Num (fusion sol))))"

text \<open>One iteration of the loop over \<^verbatim>\<open>enumerate(solutions, start=2)\<close>.\<close>

definition data_row :: "nat \<Rightarrow> solution \<Rightarrow> loop_state \<Rightarrow> py_error + loop_state" where
  "data_row row_idx sol st =
     (let stars_val = stars sol in
      if Some stars_val \<noteq> current_stars st then
        (case close_previous row_idx st of
           Inl e \<Rightarrow> Inl e
         | Inr ws \<Rightarrow>
             Inr \<lparr>current_stars = Some stars_val, group_start_row = Some row_idx,
                  sheet = write_rest row_idx sol (ws_cell ws row_idx 1 (Some (Num stars_val)))\<rparr>)
      else
        Inr (st\<lparr>sheet := write_rest row_idx sol (ws_cell (sheet st) row_idx 1 None)\<rparr>))"

fun data_rows :: "nat \<Rightarrow> solution list \<Rightarrow> loop_state \<Rightarrow> py_error + loop_state" where
  "data_rows row_idx [] st = Inr st"
| "data_rows row_idx (sol # sols) st =
     (case data_row row_idx sol st of
        Inl e \<Rightarrow> Inl e
      | Inr st' \<Rightarrow> data_rows (Suc row_idx) sols st')"

text \<open>Closing the last group (lines 91-97).\<close>

definition close_last :: "nat \<Rightarrow> loop_state \<Rightarrow> worksheet" where
  "close_last last_row st =
     (case group_start_row st of
        None \<Rightarrow> sheet st
      | Some g \<Rightarrow> if last_row > g then merge_cells (sheet st) g 1 last_row 1 else sheet st)"

text \<open>Everything \<^verbatim>\<open>generate_excel\<close> does to the workbook before saving it (lines 48-97).\<close>

definition build_sheet :: "solution list \<Rightarrow> py_error + worksheet" where
  "build_sheet solutions =
     (let ws = header_row (new_workbook\<lparr>title := ''Sheet1''\<rparr>) in
      case data_rows 2 solutions
             \<lparr>current_stars = None, group_start_row = None, sheet = ws\<rparr> of
        Inl e \<Rightarrow> Inl e
      | Inr st \<Rightarrow> Inr (close_last (length solutions + 1) st))"

subsection \<open>Saving (lines 99-102)\<close>

text \<open>
  The outside world the program acts on: the directories and the files that exist, and the
  two output streams. Paths are strings taken literally: the model neither normalises a
  path nor tracks parent directories or permissions.
\<close>

record world =
  dirs :: "string set"
  files :: "string \<rightharpoonup> worksheet"
  stdout :: "string list"
  stderr :: "string list"

text \<open>
  \<^verbatim>\<open>os.path.dirname\<close> (POSIX): everything up to and including the last slash, with trailing
  slashes stripped unless that head consists of slashes only.
\<close>

definition dirname :: "string \<Rightarrow> string" where
  "dirname p =
     (let head = rev (dropWhile (\<lambda>c. c \<noteq> CHR ''/'') (rev p)) in
      if head \<noteq> [] \<and> head \<noteq> replicate (length head) (CHR ''/'')
      then rev (dropWhile (\<lambda>c. c = CHR ''/'') (rev head))
      else head)"

text \<open>
  \<^verbatim>\<open>os.makedirs(name, exist_ok=True)\<close>: the empty name is no path at all and raises
  \<^verbatim>\<open>FileNotFoundError\<close>; an existing directory is tolerated; an existing file of that name
  raises \<^verbatim>\<open>FileExistsError\<close>; otherwise the directory is created.
\<close>

definition makedirs :: "string \<Rightarrow> world \<Rightarrow> py_error + world" where
  "makedirs name w =
     (if name = [] then Inl FileNotFoundError
      else if name \<in> dirs w then Inr w
      else if name \<in> dom (files w) then Inl FileExistsError
      else Inr (w\<lparr>dirs := insert name (dirs w)\<rparr>))"

text \<open>
  \<^verbatim>\<open>wb.save(path)\<close>: opens the path for writing, which fails on a directory and on a missing
  parent directory, and otherwise creates or overwrites the file.
\<close>

definition wb_save :: "worksheet \<Rightarrow> string \<Rightarrow> world \<Rightarrow> py_error + world" where
  "wb_save wb path w =
     (if path \<in> dirs w \<or> path = [] \<or> last path = CHR ''/'' then Inl IsADirectoryError
      else if dirname path \<noteq> [] \<and> dirname path \<notin> dirs w then Inl FileNotFoundError
      else Inr (w\<lparr>files := (files w)(path \<mapsto> wb)\<rparr>))"

definition print :: "string \<Rightarrow> world \<Rightarrow> world" where
  "print line w = w\<lparr>stdout := stdout w @ [line]\<rparr>"

definition generate_excel ::
  "solution list \<Rightarrow> string \<Rightarrow> world \<Rightarrow> (py_error + unit) \<times> world" where
  "generate_excel solutions output_path w =
     (case build_sheet solutions of
        Inl e \<Rightarrow> (Inl e, w)
      | Inr wb \<Rightarrow>
          (case makedirs (dirname output_path) w of
             Inl e \<Rightarrow> (Inl e, w)
           | Inr w1 \<Rightarrow>
               (case wb_save wb output_path w1 of
                  Inl e \<Rightarrow> (Inl e, w1)
                | Inr w2 \<Rightarrow> (Inr (), print (''Saved: '' @ output_path) w2))))"

section \<open>The command line: \<open>main\<close> (generate.py, lines 105-136)\<close>

text \<open>
  The namespace \<^verbatim>\<open>parse_args\<close> returns. The four positionals are declared in the order
  \<^verbatim>\<open>xyz_min, xyz_max, fusion_min, fusion_max\<close>; the model starts from the command line's
  values already converted by \<^verbatim>\<open>int\<close>. A wrong number of arguments is argparse's own
  usage error, exit status 2.
\<close>

record args =
  xyz_min :: int
  xyz_max :: int
  fusion_min :: int
  fusion_max :: int

fun parse_args :: "int list \<Rightarrow> py_error + args" where
  "parse_args [a, b, c, d] =
     Inr \<lparr>xyz_min = a, xyz_max = b, fusion_min = c, fusion_max = d\<rparr>"
| "parse_args _ = Inl (SystemExit 2)"

text \<open>
  \<^verbatim>\<open>parser.error(message)\<close> writes the message to stderr and exits with status 2. The usage
  line argparse prints before it is left out.
\<close>

definition parser_error :: "string \<Rightarrow> world \<Rightarrow> (py_error + unit) \<times> world" where
  "parser_error message w = (Inl (SystemExit 2), w\<lparr>stderr := stderr w @ [message]\<rparr>)"

text \<open>
  The signs \<^verbatim>\<open>U+2264\<close> (less or equal) and \<^verbatim>\<open>U+2265\<close> (greater or equal) of the
  messages, each as its three UTF-8 bytes.
\<close>

definition le_sign :: string where
  "le_sign = [CHR 0xE2, CHR 0x89, CHR 0xA4]"

definition ge_sign :: string where
  "ge_sign = [CHR 0xE2, CHR 0x89, CHR 0xA5]"

text \<open>\<^verbatim>\<open>str\<close> of an int, as the f-string formats it: decimal digits, a minus sign if negative.\<close>

fun str_nat :: "nat \<Rightarrow> string" where
  "str_nat n =
     (if n < 10 then [''0123456789'' ! n]
      else str_nat (n div 10) @ [''0123456789'' ! (n mod 10)])"

declare str_nat.simps [simp del]

definition str_int :: "int \<Rightarrow> string" where
  "str_int i = (if i < 0 then CHR ''-'' # str_nat (nat (- i)) else str_nat (nat i))"

text \<open>\<^verbatim>\<open>os.path.join\<close> (POSIX): an absolute component discards what came before it.\<close>

definition join_step :: "string \<Rightarrow> string \<Rightarrow> string" where
  "join_step b path =
     (if b \<noteq> [] \<and> hd b = CHR ''/'' then b
      else if path = [] \<or> last path = CHR ''/'' then path @ b
      else path @ ''/'' @ b)"

definition path_join :: "string \<Rightarrow> string list \<Rightarrow> string" where
  "path_join a ps = fold join_step ps a"

definition output_filename :: "args \<Rightarrow> string" where
  "output_filename a =
     ''sec xyz'' @ str_int (xyz_min a) @ ''-'' @ str_int (xyz_max a)
       @ '' fusion'' @ str_int (fusion_min a) @ ''-'' @ str_int (fusion_max a) @ ''.xlsx''"

text \<open>
  \<open>script_dir\<close> is \<^verbatim>\<open>os.path.dirname(os.path.abspath(__file__))\<close>, the directory of the
  program, which the model takes as given.
\<close>

definition main :: "string \<Rightarrow> int list \<Rightarrow> world \<Rightarrow> (py_error + unit) \<times> world" where
  "main script_dir argv w =
     (case parse_args argv of
        Inl e \<Rightarrow> (Inl e, w)
      | Inr a \<Rightarrow>
          if fusion_min a > fusion_max a then
            parser_error (''fusion_min must be '' @ le_sign @ '' fusion_max'') w
          else if xyz_min a > xyz_max a then
            parser_error (''xyz_min must be '' @ le_sign @ '' xyz_max'') w
          else if fusion_min a < 1 \<or> xyz_min a < 1 then
            parser_error (''All level/rank values must be '' @ ge_sign @ '' 1'') w
          else
            (let solutions = solve (fusion_min a) (fusion_max a) (xyz_min a) (xyz_max a);
                 filename = output_filename a;
                 output_path = path_join script_dir [''results'', filename]
             in generate_excel solutions output_path w))"

section \<open>Specification of the grouping in column 1\<close>







subsection \<open>The invariant of the loop over the data rows\<close>






subsection \<open>A world to run the examples in\<close>

definition w0 :: world where
  "w0 = \<lparr>dirs = {}, files = Map.empty, stdout = [], stderr = []\<rparr>"

section \<open>Properties of the enumerator\<close>

subsection \<open>The enumeration as a product of the two ranges\<close>

lemma fold_append_map: "fold (\<lambda>x acc. acc @ [g x]) xs acc = acc @ map g xs"
  by (induction xs arbitrary: acc) simp_all

lemma fold_append_concat:
  "fold (\<lambda>x acc. acc @ h x) xs acc = acc @ concat (map h xs)"
  by (induction xs arbitrary: acc) simp_all

lemma concat_map_product:
  "concat (map (\<lambda>a. map (g a) ys) xs) = map (\<lambda>(a, b). g a b) (List.product xs ys)"
  by (induction xs) simp_all

lemma enumerate_solutions_product:
  "enumerate_solutions fmin fmax xmin xmax =
     map (\<lambda>(f, x). mk_solution f x)
       (List.product [fmin..fmax] [xmin..xmax])"
  by (simp add: enumerate_solutions_def fold_append_map fold_append_concat concat_map_product)

lemma sort_key_of_mk [simp]: "sort_key_of (mk_solution f x) = (f + x, x)"
  by (simp add: sort_key_of_def mk_solution_def)

lemma distinct_keys_enumerate:
  "distinct (map sort_key_of (enumerate_solutions fmin fmax xmin xmax))"
  by (simp add: enumerate_solutions_product distinct_map distinct_product comp_def
        case_prod_unfold inj_on_def)

lemma distinct_enumerate:
  "distinct (enumerate_solutions fmin fmax xmin xmax)"
  using distinct_keys_enumerate distinct_map by blast

lemma set_enumerate:
  "set (enumerate_solutions fmin fmax xmin xmax) =
     {mk_solution f x | f x. fmin \<le> f \<and> f \<le> fmax \<and> xmin \<le> x \<and> x \<le> xmax}"
  by (fastforce simp: enumerate_solutions_product)

lemma length_enumerate:
  "length (enumerate_solutions fmin fmax xmin xmax) =
     nat (fmax - fmin + 1) * nat (xmax - xmin + 1)"
  by (simp add: enumerate_solutions_product)


lemma set_sort_reverse [simp]: "set (sort_reverse k xs) = set xs"
  by (simp add: sort_reverse_def)

lemma length_sort_reverse [simp]: "length (sort_reverse k xs) = length xs"
  by (simp add: sort_reverse_def)

lemma distinct_sort_reverse [simp]: "distinct (sort_reverse k xs) = distinct xs"
  by (simp add: sort_reverse_def)

lemma sorted_sort_reverse: "sorted_wrt (\<lambda>a b. k b \<le> k a) (sort_reverse k xs)"
proof -
  have "sorted (map k (sort_key k (rev xs)))" by (rule sorted_sort_key)
  then have "sorted_wrt (\<lambda>a b. k a \<le> k b) (sort_key k (rev xs))"
    by (simp add: sorted_wrt_map)
  then show ?thesis by (simp add: sort_reverse_def sorted_wrt_rev)
qed

lemma set_solve: "set (solve a b c d) = set (enumerate_solutions a b c d)"
  by (simp add: solve_def)

lemma solve_1_2_1_2:
  "solve 1 2 1 2 = [mk_solution 2 2, mk_solution 1 2, mk_solution 2 1, mk_solution 1 1]"
  by code_simp



subsection \<open>Completeness and the two equations\<close>

text \<open>
  Claim C1. For bounds with \<open>fmin \<le> fmax\<close>, \<open>xmin \<le> xmax\<close> and both minima at least 1,
  \<open>solve\<close> returns exactly \<open>(fmax - fmin + 1) * (xmax - xmin + 1)\<close> records, every pair
  \<open>(f, x)\<close> of the two ranges is the (fusion, xyz) of exactly one record, and every record
  satisfies \<open>stars = fusion + xyz\<close> and \<open>nb_cards = fusion + 2 * xyz\<close>.
\<close>

theorem solve_complete:
  assumes "fmin \<le> fmax" and "xmin \<le> xmax"
    and "1 \<le> fmin" and "1 \<le> xmin"
  shows "int (length (solve fmin fmax xmin xmax)) =
           (fmax - fmin + 1) * (xmax - xmin + 1)
       \<and> (\<forall>f x. fmin \<le> f \<and> f \<le> fmax \<and> xmin \<le> x \<and> x \<le> xmax \<longrightarrow>
             length (filter (\<lambda>r. fusion r = f \<and> xyz r = x)
                       (solve fmin fmax xmin xmax)) = 1)
       \<and> (\<forall>r \<in> set (solve fmin fmax xmin xmax).
             stars r = fusion r + xyz r \<and> nb_cards r = fusion r + 2 * xyz r)"
proof (intro conjI allI impI ballI)
  let ?S = "solve fmin fmax xmin xmax"
  let ?E = "enumerate_solutions fmin fmax xmin xmax"
  show "int (length ?S) = (fmax - fmin + 1) * (xmax - xmin + 1)"
    using assms by (simp add: solve_def length_enumerate)
next
  fix f x
  let ?S = "solve fmin fmax xmin xmax"
  let ?E = "enumerate_solutions fmin fmax xmin xmax"
  let ?P = "\<lambda>r. fusion r = f \<and> xyz r = x"
  assume range: "fmin \<le> f \<and> f \<le> fmax \<and> xmin \<le> x \<and> x \<le> xmax"
  have dist: "distinct ?S" by (simp add: solve_def distinct_enumerate)
  have "{r. ?P r} \<inter> set ?S = {mk_solution f x}"
    using range by (auto simp: set_solve set_enumerate mk_solution_def)
  then show "length (filter ?P ?S) = 1"
    using distinct_length_filter [OF dist, of ?P] by simp
next
  fix r
  assume "r \<in> set (solve fmin fmax xmin xmax)"
  then show "stars r = fusion r + xyz r" "nb_cards r = fusion r + 2 * xyz r"
    by (auto simp: set_solve set_enumerate mk_solution_def)
qed

theorem solve_complete_witness:
  "(1::int) \<le> 2 \<and> (1::int) \<le> 1
   \<and> int (length (solve 1 2 1 2)) = (2 - 1 + 1) * (2 - 1 + 1)
   \<and> length (filter (\<lambda>r. fusion r = 2 \<and> xyz r = 1) (solve 1 2 1 2)) = 1
   \<and> list_all (\<lambda>r. stars r = fusion r + xyz r \<and> nb_cards r = fusion r + 2 * xyz r)
        (solve 1 2 1 2)"
  using solve_complete [of 1 2 1 2] by (simp add: list_all_iff)

subsection \<open>Order of the result\<close>

text \<open>
  Claim C2. The list \<open>solve\<close> returns is non-increasing in \<open>stars\<close>, and of two records with
  equal \<open>stars\<close> the earlier one has the larger or equal \<open>xyz\<close>. This holds for all bounds,
  the valid ones among them.
\<close>

theorem solve_sorted:
  "sorted_wrt (\<lambda>a b. stars b \<le> stars a) (solve fmin fmax xmin xmax)
   \<and> sorted_wrt (\<lambda>a b. stars a = stars b \<longrightarrow> xyz b \<le> xyz a)
        (solve fmin fmax xmin xmax)"
proof -
  have s: "sorted_wrt (\<lambda>a b. sort_key_of b \<le> sort_key_of a)
             (solve fmin fmax xmin xmax)"
    unfolding solve_def by (rule sorted_sort_reverse)
  have "sorted_wrt (\<lambda>a b. stars b \<le> stars a) (solve fmin fmax xmin xmax)"
    by (rule sorted_wrt_mono_rel [OF _ s]) (auto simp: sort_key_of_def less_eq_prod_def)
  moreover have "sorted_wrt (\<lambda>a b. stars a = stars b \<longrightarrow> xyz b \<le> xyz a)
      (solve fmin fmax xmin xmax)"
    by (rule sorted_wrt_mono_rel [OF _ s]) (auto simp: sort_key_of_def less_eq_prod_def)
  ultimately show ?thesis by simp
qed

theorem solve_sorted_witness:
  "sorted_wrt (\<lambda>a b. stars b \<le> stars a) (solve 1 2 1 2)
   \<and> sorted_wrt (\<lambda>a b. stars a = stars b \<longrightarrow> xyz b \<le> xyz a) (solve 1 2 1 2)
   \<and> stars (solve 1 2 1 2 ! 1) = stars (solve 1 2 1 2 ! 2)
   \<and> xyz (solve 1 2 1 2 ! 2) \<le> xyz (solve 1 2 1 2 ! 1)"
  using solve_sorted [of 1 2 1 2] by (simp add: solve_1_2_1_2 mk_solution_def)

text \<open>
  Claim C5. When \<open>xmin\<close> is at least 1, every record \<open>solve\<close> returns has
  \<open>stars \<le> nb_cards\<close>.
\<close>

theorem solve_stars_le_nb_cards:
  assumes "1 \<le> xmin"
  shows "\<forall>r \<in> set (solve fmin fmax xmin xmax). stars r \<le> nb_cards r"
  using assms by (auto simp: set_solve set_enumerate mk_solution_def)

theorem solve_stars_le_nb_cards_witness:
  "(1::int) \<le> 1 \<and> solve 1 2 1 2 \<noteq> []
   \<and> list_all (\<lambda>r. stars r \<le> nb_cards r) (solve 1 2 1 2)"
  using solve_stars_le_nb_cards [of 1 1 2 2] by (simp add: solve_1_2_1_2 list_all_iff)



section \<open>Properties of the renderer\<close>

subsection \<open>What the sheet operations change\<close>


lemma cells_ws_cell:
  "cells (ws_cell ws r c v) p =
     (if p = (r, c) then
        Some (case v of None \<Rightarrow> (case cells ws (r, c) of None \<Rightarrow> empty_cell | Some c0 \<Rightarrow> c0)
                      | Some x \<Rightarrow> (case cells ws (r, c) of None \<Rightarrow> empty_cell | Some c0 \<Rightarrow> c0)\<lparr>cvalue := x\<rparr>)
      else cells ws p)"
  by (simp add: ws_cell_def Let_def split: option.splits)

lemma merged_ws_cell [simp]: "merged_cells (ws_cell ws r c v) = merged_cells ws"
  by (simp add: ws_cell_def Let_def)

lemma merged_write_rest [simp]: "merged_cells (write_rest r s ws) = merged_cells ws"
  by (simp add: write_rest_def Let_def)

lemma cells_write_rest_col1 [simp]: "cells (write_rest r s ws) (a, Suc 0) = cells ws (a, Suc 0)"
  by (simp add: write_rest_def Let_def cells_ws_cell)

lemma merged_merge_cells [simp]:
  "merged_cells (merge_cells ws a b c d) = merged_cells ws @ [(a, b, c, d)]"
  by (simp add: merge_cells_def)


subsection \<open>Runs of a list and of its extension by one element\<close>













subsection \<open>The three moves of the loop: closing, opening and extending a group\<close>




subsection \<open>The loop keeps its invariant and never raises\<close>











subsection \<open>Paths, directories and the saved file\<close>











subsection \<open>Column 1 and the merged ranges\<close>





subsection \<open>The empty list\<close>



subsection \<open>The output directory\<close>



subsection \<open>Determinism and idempotence\<close>



section \<open>Properties of the command line\<close>

lemma slash_notin_str_nat: "CHR ''/'' \<notin> set (str_nat n)"
proof (induction n rule: str_nat.induct)
  case (1 n)
  have d: "\<And>k. k < 10 \<Longrightarrow> ''0123456789'' ! k \<noteq> CHR ''/''"
  proof -
    fix k :: nat assume "k < 10"
    then have "''0123456789'' ! k \<in> set ''0123456789''" by (intro nth_mem) simp
    then show "''0123456789'' ! k \<noteq> CHR ''/''" by auto
  qed
  show ?case
  proof (cases "n < 10")
    case True
    then show ?thesis using d [of n] by (simp add: str_nat.simps [of n])
  next
    case False
    then show ?thesis using 1 d [of "n mod 10"] by (simp add: str_nat.simps [of n])
  qed
qed

lemma slash_notin_str_int: "1 \<le> i \<Longrightarrow> CHR ''/'' \<notin> set (str_int i)"
  by (simp add: str_int_def slash_notin_str_nat)

lemma output_filename_eq:
  "output_filename \<lparr>xyz_min = xmin, xyz_max = xmax, fusion_min = fmin, fusion_max = fmax\<rparr> =
     ''sec xyz'' @ str_int xmin @ ''-'' @ str_int xmax
       @ '' fusion'' @ str_int fmin @ ''-'' @ str_int fmax @ ''.xlsx''"
  by (simp add: output_filename_def)

lemma slash_notin_output_filename:
  assumes "1 \<le> xyz_min a" "1 \<le> xyz_max a" "1 \<le> fusion_min a" "1 \<le> fusion_max a"
  shows "CHR ''/'' \<notin> set (output_filename a)"
  using assms by (simp add: output_filename_def slash_notin_str_int)

lemma path_join_results:
  assumes "fn \<noteq> []" and "hd fn \<noteq> CHR ''/''"
  shows "path_join script_dir [''results'', fn] =
     (if script_dir = [] \<or> last script_dir = CHR ''/'' then script_dir else script_dir @ ''/'')
       @ ''results/'' @ fn"
  using assms by (simp add: path_join_def join_step_def)

lemma dirname_results:
  assumes "CHR ''/'' \<notin> set fn"
  shows "dirname (pre @ ''results/'' @ fn) = pre @ ''results''"
proof -
  have r: "rev (pre @ ''results/'' @ fn) = rev fn @ (CHR ''/'' # rev (pre @ ''results''))"
    by simp
  have "dropWhile (\<lambda>c. c \<noteq> CHR ''/'') (rev fn @ (CHR ''/'' # rev (pre @ ''results''))) =
      dropWhile (\<lambda>c. c \<noteq> CHR ''/'') (CHR ''/'' # rev (pre @ ''results''))"
    using assms by (intro dropWhile_append2) auto
  then have "dropWhile (\<lambda>c. c \<noteq> CHR ''/'') (rev (pre @ ''results/'' @ fn)) =
      CHR ''/'' # rev (pre @ ''results'')"
    unfolding r by simp
  then have h: "rev (dropWhile (\<lambda>c. c \<noteq> CHR ''/'') (rev (pre @ ''results/'' @ fn))) =
      pre @ ''results/''" by simp
  have nr: "pre @ ''results/'' \<noteq> replicate (length (pre @ ''results/'')) (CHR ''/'')"
  proof
    assume "pre @ ''results/'' = replicate (length (pre @ ''results/'')) (CHR ''/'')"
    then have "set (pre @ ''results/'') \<subseteq> {CHR ''/''}" by (metis set_replicate_conv_if empty_subsetI subset_refl)
    then show False by simp
  qed
  show ?thesis unfolding dirname_def Let_def h using nr by simp
qed

lemma str_int_1: "str_int 1 = ''1''" and str_int_2: "str_int 2 = ''2''"
  by (simp_all add: str_int_def str_nat.simps)

text \<open>
  Claim C4. \<open>main\<close> checks \<open>fusion_min \<le> fusion_max\<close> first, \<open>xyz_min \<le> xyz_max\<close> second and
  the two minima being at least 1 third; the first rule violated decides the message, and
  every violation ends in \<open>parser.error\<close>: the message on stderr, exit status 2, and the
  files, directories and stdout untouched, as neither the enumerator nor the renderer has
  run. In particular \<open>fusion_min = 5\<close>, \<open>fusion_max = 1\<close> gives the fusion ordering error,
  and \<open>xyz_min = 0\<close> gives the positivity error once both ordering rules hold.
\<close>

theorem main_validation:
  "(fmax < fmin \<longrightarrow>
      main script_dir [xmin, xmax, fmin, fmax] w = parser_error (''fusion_min must be '' @ le_sign @ '' fusion_max'') w)
   \<and> (fmin \<le> fmax \<and> xmax < xmin \<longrightarrow>
      main script_dir [xmin, xmax, fmin, fmax] w = parser_error (''xyz_min must be '' @ le_sign @ '' xyz_max'') w)
   \<and> (fmin \<le> fmax \<and> xmin \<le> xmax \<and> (fmin < 1 \<or> xmin < 1) \<longrightarrow>
      main script_dir [xmin, xmax, fmin, fmax] w = parser_error (''All level/rank values must be '' @ ge_sign @ '' 1'') w)
   \<and> (fmax < fmin \<or> xmax < xmin \<or> fmin < 1 \<or> xmin < 1 \<longrightarrow>
      fst (main script_dir [xmin, xmax, fmin, fmax] w) = Inl (SystemExit 2)
      \<and> files (snd (main script_dir [xmin, xmax, fmin, fmax] w)) = files w
      \<and> dirs (snd (main script_dir [xmin, xmax, fmin, fmax] w)) = dirs w
      \<and> stdout (snd (main script_dir [xmin, xmax, fmin, fmax] w)) = stdout w)
   \<and> main script_dir [xmin, xmax, 5, 1] w = parser_error (''fusion_min must be '' @ le_sign @ '' fusion_max'') w
   \<and> (fmin \<le> fmax \<and> 0 \<le> xmax \<longrightarrow>
      main script_dir [0, xmax, fmin, fmax] w = parser_error (''All level/rank values must be '' @ ge_sign @ '' 1'') w)"
  by (simp add: main_def parser_error_def)

theorem main_validation_witness:
  "main ''/opt/app'' [1, 2, 5, 1] w0 = parser_error (''fusion_min must be '' @ le_sign @ '' fusion_max'') w0
   \<and> main ''/opt/app'' [3, 1, 1, 2] w0 = parser_error (''xyz_min must be '' @ le_sign @ '' xyz_max'') w0
   \<and> main ''/opt/app'' [0, 2, 1, 2] w0 = parser_error (''All level/rank values must be '' @ ge_sign @ '' 1'') w0
   \<and> fst (main ''/opt/app'' [0, 2, 1, 2] w0) = Inl (SystemExit 2)
   \<and> files (snd (main ''/opt/app'' [0, 2, 1, 2] w0)) = Map.empty"
  using main_validation [where fmin = 5 and fmax = 1 and xmin = 1 and xmax = 2
      and script_dir = "''/opt/app''" and w = w0]
    main_validation [where fmin = 1 and fmax = 2 and xmin = 3 and xmax = 1
      and script_dir = "''/opt/app''" and w = w0]
    main_validation [where fmin = 1 and fmax = 2 and xmin = 0 and xmax = 2
      and script_dir = "''/opt/app''" and w = w0]
  by (simp add: parser_error_def w0_def)

text \<open>
  Claim C6. When the four bounds pass validation, \<open>main\<close> is the renderer applied to the
  enumerator's result and the output path, in the unchanged world; the path is the file name
  \<^verbatim>\<open>sec xyz{xyz_min}-{xyz_max} fusion{fusion_min}-{fusion_max}.xlsx\<close> in the directory
  \<^verbatim>\<open>results\<close> under the directory of the program.
\<close>

theorem main_output:
  assumes "fmin \<le> fmax" and "xmin \<le> xmax" and "1 \<le> fmin" and "1 \<le> xmin"
  shows "main script_dir [xmin, xmax, fmin, fmax] w =
           generate_excel (solve fmin fmax xmin xmax)
             (path_join script_dir
                [''results'',
                 ''sec xyz'' @ str_int xmin @ ''-'' @ str_int xmax
                   @ '' fusion'' @ str_int fmin @ ''-'' @ str_int fmax @ ''.xlsx'']) w
       \<and> path_join script_dir
            [''results'',
             ''sec xyz'' @ str_int xmin @ ''-'' @ str_int xmax
               @ '' fusion'' @ str_int fmin @ ''-'' @ str_int fmax @ ''.xlsx''] =
           (if script_dir = [] \<or> last script_dir = CHR ''/'' then script_dir
            else script_dir @ ''/'')
           @ ''results/sec xyz'' @ str_int xmin @ ''-'' @ str_int xmax
           @ '' fusion'' @ str_int fmin @ ''-'' @ str_int fmax @ ''.xlsx''
       \<and> dirname (path_join script_dir
            [''results'',
             ''sec xyz'' @ str_int xmin @ ''-'' @ str_int xmax
               @ '' fusion'' @ str_int fmin @ ''-'' @ str_int fmax @ ''.xlsx'']) =
           (if script_dir = [] \<or> last script_dir = CHR ''/'' then script_dir
            else script_dir @ ''/'') @ ''results''"
proof -
  let ?a = "\<lparr>xyz_min = xmin, xyz_max = xmax, fusion_min = fmin, fusion_max = fmax\<rparr>"
  let ?fn = "''sec xyz'' @ str_int xmin @ ''-'' @ str_int xmax
               @ '' fusion'' @ str_int fmin @ ''-'' @ str_int fmax @ ''.xlsx''"
  let ?pre = "if script_dir = [] \<or> last script_dir = CHR ''/'' then script_dir
            else script_dir @ ''/''"
  have fn: "output_filename ?a = ?fn" by (rule output_filename_eq)
  have 1: "main script_dir [xmin, xmax, fmin, fmax] w =
           generate_excel (solve fmin fmax xmin xmax) (path_join script_dir [''results'', ?fn]) w"
    using assms by (simp add: main_def Let_def fn)
  have ns: "CHR ''/'' \<notin> set ?fn"
    using slash_notin_output_filename [of ?a] assms unfolding fn by simp
  have 2: "path_join script_dir [''results'', ?fn] = ?pre @ ''results/'' @ ?fn"
    by (rule path_join_results) simp_all
  have 3: "dirname (path_join script_dir [''results'', ?fn]) = ?pre @ ''results''"
    unfolding 2 using ns by (rule dirname_results)
  show ?thesis using 1 2 3 by simp
qed

theorem main_output_witness:
  "(1::int) \<le> 2 \<and> (1::int) \<le> 1
   \<and> main ''/opt/app'' [1, 2, 1, 2] w0 =
       generate_excel (solve 1 2 1 2) ''/opt/app/results/sec xyz1-2 fusion1-2.xlsx'' w0
   \<and> dirname ''/opt/app/results/sec xyz1-2 fusion1-2.xlsx'' = ''/opt/app/results''"
proof -
  have h: "(1::int) \<le> 2" "(1::int) \<le> 1" by simp_all
  note m = main_output [where fmin = 1 and fmax = 2 and xmin = 1 and xmax = 2
      and script_dir = "''/opt/app''" and w = w0, OF h(1) h(1) h(2) h(2)]
  have p: "path_join ''/opt/app''
      [''results'', ''sec xyz'' @ str_int 1 @ ''-'' @ str_int 2
         @ '' fusion'' @ str_int 1 @ ''-'' @ str_int 2 @ ''.xlsx''] =
      ''/opt/app/results/sec xyz1-2 fusion1-2.xlsx''"
    using m [THEN conjunct2, THEN conjunct1] by (simp add: str_int_1 str_int_2)
  have "main ''/opt/app'' [1, 2, 1, 2] w0 =
       generate_excel (solve 1 2 1 2) ''/opt/app/results/sec xyz1-2 fusion1-2.xlsx'' w0"
    using m [THEN conjunct1] unfolding p .
  moreover have "dirname ''/opt/app/results/sec xyz1-2 fusion1-2.xlsx'' = ''/opt/app/results''"
    using m [THEN conjunct2, THEN conjunct2] unfolding p by simp
  ultimately show ?thesis using h by simp
qed

end
